theory Spec2Isabelle
  imports Main
begin

section \<open>The pipeline runner (package main)\<close>

text \<open>
  The runner \<^verbatim>\<open>executePipeline\<close> drives collaborators that are not part of the
  sources read here (the Runner, the Box, the pipeline, the artificer).  Each of them is a
  parameter: the record \<open>World\<close> fixes what every collaborator call returns, and the run
  records every collaborator call in a trace of events.  The only panics modelled are the
  ones the runner raises itself with \<^verbatim>\<open>log.Panicln\<close>.  Of the logging, the calls at
  error and panic level are recorded; the informational banners are not.
\<close>

type_synonym error = string

record GlobalOptions =
  Debug :: bool
  ShouldRemove :: bool
  ShouldCommit :: bool
  ShouldPush :: bool
  ShouldArtifacts :: bool
  Registry :: string
  AuthToken :: string

record Step =
  Name :: string
  ID :: string
  DisplayName :: string

record Artifact =
  URL :: string

record StepResult =
  srSuccess :: bool
  srArtifact :: "Artifact option"
  srMessage :: string
  srPackageURL :: string
  srExitCode :: int

record PipelineResult =
  Success :: bool
  FailedStepName :: string
  FailedStepMessage :: string

record PushOptions =
  poRegistry :: string
  poName :: string
  poTag :: string
  poMessage :: string

record AuthConfiguration =
  Username :: string
  Password :: string
  ServerAddress :: string

text \<open>The two runner contexts a step can be run in: \<^verbatim>\<open>ctx\<close> and \<^verbatim>\<open>newCtx\<close>.\<close>

datatype Ctx = MainCtx | NewCtx

datatype Event =
    EvStartBuild
  | EvFinishBuild bool
  | EvEnsureCode
  | EvSetupEnvironment
  | EvLogPanicln "string list"
  | EvLogErrorln "string list"
  | EvLogError string
  | EvBuildStepsAdded "Step list" Step "Step list"
  | EvRunStep Ctx Step nat
  | EvBoxCommit string string string
  | EvBoxPush PushOptions AuthConfiguration
  | EvBoxRestart
  | EvBoxStop
  | EvBoxClean
  | EvStartStep Step nat
  | EvFinishStep StepResult
  | EvCollectArtifact
  | EvUpload Artifact
  | EvGetSession
  | EvPipelineExportEnvironment
  | EvResultExportEnvironment PipelineResult

text \<open>
  What the collaborators answer.  \<open>SetupEnvironment\<close> gives whether \<^verbatim>\<open>ctx.box\<close> is
  non-nil, and the error.  \<open>RunStep\<close> gives the step result and the error of the call made
  with the given context, step and order.
\<close>

record World =
  NewGlobalOptions :: "error + GlobalOptions"
  EnsureCode :: "error option"
  SetupEnvironment :: "bool \<times> error option"
  Steps :: "Step list"
  AfterSteps :: "Step list"
  DockerRepo :: string
  DockerTag :: string
  DockerMessage :: string
  RunStep :: "Ctx \<Rightarrow> Step \<Rightarrow> nat \<Rightarrow> StepResult \<times> error option"
  Push :: "error option"
  CollectArtifact :: "error + Artifact"
  Upload :: "Artifact \<Rightarrow> error option"
  Restart :: "error option"
  GetSession :: "error option"
  PipelineExportEnvironment :: "error option"
  ResultExportEnvironment :: "PipelineResult \<Rightarrow> error option"

text \<open>How a call ends: it returns (an error or nil), or it panics.\<close>

datatype Outcome = Returned "error option" | Panicked "string list"

text \<open>The local variables of \<^verbatim>\<open>executePipeline\<close> that change, and the trace.\<close>

record RunState =
  pr :: PipelineResult
  stepCounter :: nat
  trace :: "Event list"

record Run =
  outcome :: Outcome
  events :: "Event list"
  result :: "PipelineResult option"

definition emit :: "Event \<Rightarrow> RunState \<Rightarrow> RunState" where
  "emit e st = st\<lparr>trace := trace st @ [e]\<rparr>"

text \<open>
  Modelled from the spec: the type \<^verbatim>\<open>Counter\<close> is not in the sources.  The spec has the
  first user step at order 3, the counter's initial value, so \<^verbatim>\<open>Increment\<close> returns the
  current value and advances the counter by one.
\<close>

definition Increment :: "nat \<Rightarrow> nat \<times> nat" where
  "Increment c = (c, c + 1)"

subsection \<open>SoftExit\<close>

text \<open>
  \<^verbatim>\<open>SoftExit.Exit\<close>: in debug mode \<^verbatim>\<open>log.Panicln\<close> logs and panics, so the lines after
  it are not reached; otherwise the arguments are logged at error level and the error
  \<^verbatim>\<open>Exiting.\<close> is returned.
\<close>

definition Exit :: "GlobalOptions \<Rightarrow> string list \<Rightarrow> Event list \<times> Outcome" where
  "Exit options v =
     (if Debug options then ([EvLogPanicln v], Panicked v)
      else ([EvLogErrorln v], Returned (Some ''Exiting.'')))"

subsection \<open>The user steps\<close>

definition storeStep :: Step where
  "storeStep = \<lparr>Name = ''store'', ID = '''', DisplayName = ''''\<rparr>"

text \<open>The loop over \<^verbatim>\<open>pipeline.Steps()\<close>: a failing step records the failure and breaks.\<close>

fun runSteps :: "World \<Rightarrow> GlobalOptions \<Rightarrow> Step list \<Rightarrow> RunState \<Rightarrow> RunState" where
  "runSteps w options [] st = st"
| "runSteps w options (step # rest) st =
     (let (order, c) = Increment (stepCounter st);
          st1 = emit (EvRunStep MainCtx step order) (st\<lparr>stepCounter := c\<rparr>)
      in case RunStep w MainCtx step order of
           (sr, Some err) \<Rightarrow>
             st1\<lparr>pr := \<lparr>Success = False, FailedStepName = DisplayName step,
                        FailedStepMessage = srMessage sr\<rparr>\<rparr>
         | (sr, None) \<Rightarrow>
             runSteps w options rest
               (if ShouldCommit options
                then emit (EvBoxCommit (DockerRepo w) (DockerTag w) (DockerMessage w)) st1
                else st1))"

definition commitAfterSteps :: "World \<Rightarrow> GlobalOptions \<Rightarrow> RunState \<Rightarrow> RunState" where
  "commitAfterSteps w options st =
     (if ShouldCommit options
      then emit (EvBoxCommit (DockerRepo w) (DockerTag w) (DockerMessage w)) st
      else st)"

subsection \<open>The store phase\<close>

text \<open>
  The closure of the store phase, in three parts.  A part that returns early gives
  \<open>Inl\<close> with the error; the deferred \<^verbatim>\<open>finisher.Finish(sr)\<close> runs when the closure
  returns, on every path, and sees the step result as it is then.
\<close>

definition pushPart :: "World \<Rightarrow> GlobalOptions \<Rightarrow> RunState \<Rightarrow> error \<times> RunState + RunState" where
  "pushPart w options st =
     (if ShouldPush options then
        (let st1 = st\<lparr>pr := (pr st)\<lparr>FailedStepMessage := ''Unable to push to registry''\<rparr>\<rparr>;
             pushOptions = \<lparr>poRegistry = Registry options, poName = DockerRepo w,
                            poTag = DockerTag w, poMessage = DockerMessage w\<rparr>;
             auth = (if AuthToken options \<noteq> ''''
                     then \<lparr>Username = AuthToken options, Password = AuthToken options,
                           ServerAddress = Registry options\<rparr>
                     else \<lparr>Username = '''', Password = '''', ServerAddress = ''''\<rparr>);
             st2 = emit (EvBoxPush pushOptions auth) st1
         in case Push w of Some err \<Rightarrow> Inl (err, st2) | None \<Rightarrow> Inr st2)
      else Inr st)"

definition artifactPart ::
  "World \<Rightarrow> GlobalOptions \<Rightarrow> StepResult \<Rightarrow> RunState \<Rightarrow> error \<times> RunState + StepResult \<times> RunState" where
  "artifactPart w options sr st =
     (if Success (pr st) \<and> ShouldArtifacts options then
        (let st1 = st\<lparr>pr := (pr st)\<lparr>FailedStepMessage := ''Unable to store pipeline output''\<rparr>\<rparr>;
             st2 = emit EvCollectArtifact st1
         in case CollectArtifact w of
              Inl err \<Rightarrow> Inl (err, st2)
            | Inr artifact \<Rightarrow>
                (let st3 = emit (EvUpload artifact) st2
                 in case Upload w artifact of
                      Some err \<Rightarrow> Inl (err, st3)
                    | None \<Rightarrow> Inr (sr\<lparr>srPackageURL := URL artifact\<rparr>, st3)))
      else Inr (sr, st))"

definition storeClosure :: "World \<Rightarrow> GlobalOptions \<Rightarrow> RunState \<Rightarrow> error option \<times> RunState" where
  "storeClosure w options st =
     (let sr = \<lparr>srSuccess = False, srArtifact = None, srMessage = '''',
                srPackageURL = '''', srExitCode = 1\<rparr>;
          (order, c) = Increment (stepCounter st);
          st1 = emit (EvStartStep storeStep order) (st\<lparr>stepCounter := c\<rparr>);
          st2 = st1\<lparr>pr := (pr st1)\<lparr>FailedStepName := Name storeStep\<rparr>\<rparr>
      in case pushPart w options st2 of
           Inl (err, st3) \<Rightarrow> (Some err, emit (EvFinishStep sr) st3)
         | Inr st3 \<Rightarrow>
             (case artifactPart w options sr st3 of
                Inl (err, st4) \<Rightarrow> (Some err, emit (EvFinishStep sr) st4)
              | Inr (sr1, st4) \<Rightarrow>
                  (let st5 = st4\<lparr>pr := \<lparr>Success = True, FailedStepName = '''',
                                         FailedStepMessage = ''''\<rparr>\<rparr>;
                       sr2 = sr1\<lparr>srSuccess := True, srExitCode := 0\<rparr>
                   in (None, emit (EvFinishStep sr2) st5))))"

definition storePhase :: "World \<Rightarrow> GlobalOptions \<Rightarrow> RunState \<Rightarrow> RunState" where
  "storePhase w options st =
     (if ShouldPush options \<or> (Success (pr st) \<and> ShouldArtifacts options) then
        (case storeClosure w options st of
           (Some err, st1) \<Rightarrow>
             emit (EvLogError ''Unable to store pipeline output'')
               (st1\<lparr>pr := (pr st1)\<lparr>Success := False\<rparr>\<rparr>)
         | (None, st1) \<Rightarrow> st1)
      else st)"

subsection \<open>Build finished and the after-steps\<close>

text \<open>The loop over \<^verbatim>\<open>pipeline.AfterSteps()\<close>.\<close>

fun runAfterSteps :: "World \<Rightarrow> Step list \<Rightarrow> RunState \<Rightarrow> RunState" where
  "runAfterSteps w [] st = st"
| "runAfterSteps w (step # rest) st =
     (let (order, c) = Increment (stepCounter st);
          st1 = emit (EvRunStep NewCtx step order) (st\<lparr>stepCounter := c\<rparr>)
      in case RunStep w NewCtx step order of
           (sr, Some err) \<Rightarrow> st1
         | (sr, None) \<Rightarrow> runAfterSteps w rest st1)"

text \<open>
  From \<^verbatim>\<open>buildFinisher.Finish(pr.Success)\<close> to the end of the function, the deferred
  calls apart.
\<close>

definition afterPhase :: "World \<Rightarrow> RunState \<Rightarrow> Outcome \<times> RunState" where
  "afterPhase w st0 =
     (let st = emit (EvFinishBuild (Success (pr st0))) st0 in
      if length (AfterSteps w) = 0 then (Returned None, st)
      else
        (let st1 = emit EvBoxRestart st in
         case Restart w of
           Some err \<Rightarrow> (Panicked [err], emit (EvLogPanicln [err]) st1)
         | None \<Rightarrow>
             (let st2 = emit EvGetSession st1 in
              case GetSession w of
                Some err \<Rightarrow> (Panicked [err], emit (EvLogPanicln [err]) st2)
              | None \<Rightarrow>
                  (let st3 = emit EvPipelineExportEnvironment st2 in
                   case PipelineExportEnvironment w of
                     Some err \<Rightarrow> (Returned (Some err), st3)
                   | None \<Rightarrow>
                       (let st4 = emit (EvResultExportEnvironment (pr st3)) st3 in
                        case ResultExportEnvironment w (pr st3) of
                          Some err \<Rightarrow> (Returned (Some err), st4)
                        | None \<Rightarrow>
                            (let st5 = runAfterSteps w (AfterSteps w) st4 in
                             if \<not> Success (pr st5)
                             then (Returned (Some (''Step failed: '' @ FailedStepName (pr st5))), st5)
                             else (Returned None, st5)))))))"

subsection \<open>executePipeline\<close>

text \<open>
  The announcement of the steps with the initial result and counter, the state when
  the user steps and the commit after them are over, and the state when the store phase
  is over.
\<close>

definition announceSteps :: "World \<Rightarrow> RunState" where
  "announceSteps w =
     \<lparr>pr = \<lparr>Success = True, FailedStepName = '''', FailedStepMessage = ''''\<rparr>,
      stepCounter = 3,
      trace = [EvBuildStepsAdded (Steps w) storeStep (AfterSteps w)]\<rparr>"

definition runUserSteps :: "World \<Rightarrow> GlobalOptions \<Rightarrow> RunState" where
  "runUserSteps w options =
     commitAfterSteps w options (runSteps w options (Steps w) (announceSteps w))"

definition runToStore :: "World \<Rightarrow> GlobalOptions \<Rightarrow> RunState" where
  "runToStore w options = storePhase w options (runUserSteps w options)"

definition pipelineBody :: "World \<Rightarrow> GlobalOptions \<Rightarrow> Outcome \<times> RunState" where
  "pipelineBody w options = afterPhase w (runToStore w options)"

text \<open>
  \<^verbatim>\<open>SetupEnvironment\<close> and what follows.  The deferred calls are registered when the box
  is not nil: first \<^verbatim>\<open>Clean\<close> (if \<^verbatim>\<open>ShouldRemove\<close>), then \<^verbatim>\<open>Stop\<close>.  Deferred calls run
  when the function returns or panics, the last registered first.
\<close>

definition deferredCalls :: "bool \<Rightarrow> GlobalOptions \<Rightarrow> Event list" where
  "deferredCalls boxCreated options =
     (if boxCreated
      then EvBoxStop # (if ShouldRemove options then [EvBoxClean] else [])
      else [])"

definition setupAndRun :: "World \<Rightarrow> GlobalOptions \<Rightarrow> Run" where
  "setupAndRun w options =
     (let (boxCreated, err) = SetupEnvironment w;
          r = (case err of
                 Some e \<Rightarrow>
                   (let (logged, out) = Exit options [e]
                    in \<lparr>outcome = out, events = logged, result = None\<rparr>)
               | None \<Rightarrow>
                   (let (out, st) = pipelineBody w options
                    in \<lparr>outcome = out, events = trace st, result = Some (pr st)\<rparr>))
      in r\<lparr>events := EvSetupEnvironment # events r @ deferredCalls boxCreated options\<rparr>)"

text \<open>
  \<^verbatim>\<open>EnsureCode\<close> and what follows.  The value \<^verbatim>\<open>soft.Exit(err)\<close> returns is not used
  here: when \<^verbatim>\<open>Exit\<close> does not panic, the function goes on.
\<close>

definition ensureAndRun :: "World \<Rightarrow> GlobalOptions \<Rightarrow> Run" where
  "ensureAndRun w options =
     (case EnsureCode w of
        Some err \<Rightarrow>
          (case Exit options [err] of
             (logged, Panicked v) \<Rightarrow>
               \<lparr>outcome = Panicked v, events = EvEnsureCode # logged, result = None\<rparr>
           | (logged, Returned x) \<Rightarrow>
               (let r = setupAndRun w options
                in r\<lparr>events := EvEnsureCode # logged @ events r\<rparr>))
      | None \<Rightarrow>
          (let r = setupAndRun w options in r\<lparr>events := EvEnsureCode # events r\<rparr>))"

text \<open>
  The whole function.  \<^verbatim>\<open>buildFinisher.Finish(false)\<close> is deferred first, so it runs
  last.  \<open>result\<close> is the final \<^verbatim>\<open>PipelineResult\<close>, when the run got as far as creating it.
\<close>

definition executePipeline :: "World \<Rightarrow> Run" where
  "executePipeline w =
     (case NewGlobalOptions w of
        Inl err \<Rightarrow> \<lparr>outcome = Panicked [err], events = [EvLogPanicln [err]], result = None\<rparr>
      | Inr options \<Rightarrow>
          (let r = ensureAndRun w options
           in r\<lparr>events := EvStartBuild # events r @ [EvFinishBuild False]\<rparr>))"

section \<open>The metrics event handler (package event)\<close>

text \<open>
  The handler reads the clock and uses package \<^verbatim>\<open>time\<close>; both are parameters.  An
  instant is an integer, \<open>TimePkg\<close> holds the three functions of \<^verbatim>\<open>time\<close> the handler
  uses: \<^verbatim>\<open>t.Unix()\<close>, \<^verbatim>\<open>t.Format(time.RFC3339)\<close>, and \<open>SubSeconds now begin\<close> for
  \<^verbatim>\<open>int64(now.Sub(begin).Seconds())\<close>.
\<close>

type_synonym Time = int

record TimePkg =
  Unix :: "Time \<Rightarrow> int"
  FormatRFC3339 :: "Time \<Rightarrow> string"
  SubSeconds :: "Time \<Rightarrow> Time \<Rightarrow> int"

text \<open>
  \<^verbatim>\<open>core.PipelineOptions\<close> is not in the sources.  It is modelled with the fields the
  handler reads, on top of the global options; the handler reads none of those, the
  debug flag included.
\<close>

record PipelineOptions = GlobalOptions +
  KeenProjectWriteKey :: string
  KeenProjectID :: string
  BuildID :: string
  DeployID :: string
  ApplicationStartedByName :: string
  ApplicationID :: string
  ApplicationName :: string
  ApplicationOwnerName :: string

text \<open>The methods of the interfaces \<^verbatim>\<open>core.Step\<close> and \<^verbatim>\<open>core.Box\<close> the handler calls.\<close>

record CoreStep =
  csOwner :: string
  csName :: string
  csVersion :: string
  csSafeID :: string

record CoreBox =
  GetName :: string
  GetTag :: string

record metricsApplicationPayload =
  mapID :: string
  mapName :: string
  mapOwnerName :: string

record metricStepPayload =
  mspOwner :: string
  mspName :: string
  mspVersion :: string
  mspFullName :: string
  mspUniqueName :: string

text \<open>
  \<^verbatim>\<open>MetricsPayload\<close>; a pointer field is an option.  \<open>'v\<close> stands for
  \<^verbatim>\<open>util.Versions\<close>, and \<open>pKeen\<close> holds the timestamp of the \<^verbatim>\<open>metricsKeenPayload\<close>.
\<close>

record 'v MetricsPayload =
  pKeen :: "string option"
  pTimestamp :: int
  pEvent :: string
  pStack :: int
  pSentCli :: "'v option"
  pGrappler :: "'v option"
  pPipelineName :: string
  pBuildID :: string
  pDeployID :: string
  pNumBuildSteps :: int
  pNumBuildAfterSteps :: int
  pNumDeploySteps :: int
  pNumDeployAfterSteps :: int
  pBoxName :: string
  pBoxTag :: string
  pStep :: "metricStepPayload option"
  pStepName :: string
  pStepOrder :: int
  pSuccess :: "bool option"
  pMessage :: string
  pDuration :: "int option"
  pStartedBy :: string
  pVCS :: string
  pMetricsApplicationPayload :: "metricsApplicationPayload option"

text \<open>The keen client, with the events handed to \<^verbatim>\<open>AddEvent\<close>, in order.\<close>

record 'v KeenClient =
  WriteKey :: string
  ProjectID :: string
  added :: "(string \<times> 'v MetricsPayload) list"

text \<open>The handler.  \<open>startStep = None\<close> is the nil map.\<close>

record 'v MetricsEventHandler =
  keen :: "'v KeenClient"
  startStep :: "(string \<rightharpoonup> Time) option"
  startBuild :: Time
  versions :: "'v option"
  numBuildSteps :: int
  numBuildAfterSteps :: int
  numDeploySteps :: int
  numDeployAfterSteps :: int

record 'o BuildStepStartedArgs =
  argStep :: CoreStep
  argOrder :: int
  argOptions :: "'o PipelineOptions_scheme"
  argBox :: "CoreBox option"

record 'o BuildStepFinishedArgs = "'o BuildStepStartedArgs" +
  argSuccessful :: bool
  argMessage :: string

record ('v, 'o) sendPayloadArgs =
  spP :: "'v MetricsPayload"
  spOptions :: "'o PipelineOptions_scheme"
  spBox :: "CoreBox option"
  spNow :: Time
  spEventName :: string

text \<open>\<^verbatim>\<open>NewMetricsHandler\<close>; \<open>getVersions\<close> is what \<^verbatim>\<open>util.GetVersions()\<close> returns.\<close>

definition NewMetricsHandler ::
  "'v option \<Rightarrow> 'o PipelineOptions_scheme \<Rightarrow> error + 'v MetricsEventHandler" where
  "NewMetricsHandler getVersions opts =
     (if '''' = KeenProjectWriteKey opts then Inl ''No KeenProjectWriteKey specified''
      else if '''' = KeenProjectID opts then Inl ''No KeenProjectID specified''
      else Inr \<lparr>keen = \<lparr>WriteKey = KeenProjectWriteKey opts, ProjectID = KeenProjectID opts,
                         added = []\<rparr>,
                startStep = Some Map.empty, startBuild = 0, versions = getVersions,
                numBuildSteps = 0, numBuildAfterSteps = 0, numDeploySteps = 0,
                numDeployAfterSteps = 0\<rparr>)"

text \<open>Reading and deleting in a Go map: both are allowed on the nil map.\<close>

definition lookupStart :: "'v MetricsEventHandler \<Rightarrow> string \<Rightarrow> Time option" where
  "lookupStart h k = (case startStep h of None \<Rightarrow> None | Some m \<Rightarrow> m k)"

definition deleteStart :: "'v MetricsEventHandler \<Rightarrow> string \<Rightarrow> 'v MetricsEventHandler" where
  "deleteStart h k =
     (case startStep h of None \<Rightarrow> h | Some m \<Rightarrow> h\<lparr>startStep := Some (m(k := None))\<rparr>)"

definition panicMessage :: string where
  "panicMessage = ''Metrics is only able to send metrics for builds or deploys''"

text \<open>
  \<^verbatim>\<open>getPipelineName\<close> and \<^verbatim>\<open>getCollection\<close>: \<open>Inl\<close> is the panic of the logger's
  \<^verbatim>\<open>Panic\<close>, with its message; the \<^verbatim>\<open>return ""\<close> after it is not reached.
\<close>

definition getPipelineName :: "'o PipelineOptions_scheme \<Rightarrow> string + string" where
  "getPipelineName options =
     (if BuildID options \<noteq> '''' then Inr ''build''
      else if DeployID options \<noteq> '''' then Inr ''deploy''
      else Inl panicMessage)"

definition getCollection :: "'o PipelineOptions_scheme \<Rightarrow> string + string" where
  "getCollection options =
     (if BuildID options \<noteq> '''' then Inr ''build-events''
      else if DeployID options \<noteq> '''' then Inr ''deploy-events''
      else Inl panicMessage)"

definition getBoxDetails :: "CoreBox option \<Rightarrow> string \<times> string" where
  "getBoxDetails box = (case box of None \<Rightarrow> ('''', '''') | Some b \<Rightarrow> (GetName b, GetTag b))"

definition formatUniqueStepName :: "CoreStep \<Rightarrow> string" where
  "formatUniqueStepName step = csOwner step @ ''/'' @ csName step @ ''@'' @ csVersion step"

definition newMetricStepPayload :: "CoreStep \<Rightarrow> metricStepPayload" where
  "newMetricStepPayload step =
     \<lparr>mspOwner = csOwner step, mspName = csName step, mspVersion = csVersion step,
      mspFullName = csOwner step @ ''/'' @ csName step,
      mspUniqueName = formatUniqueStepName step\<rparr>"

text \<open>The zero value of \<^verbatim>\<open>MetricsPayload\<close>.\<close>

definition zeroPayload :: "'v MetricsPayload" where
  "zeroPayload =
     \<lparr>pKeen = None, pTimestamp = 0, pEvent = '''', pStack = 0, pSentCli = None,
      pGrappler = None, pPipelineName = '''', pBuildID = '''', pDeployID = '''',
      pNumBuildSteps = 0, pNumBuildAfterSteps = 0, pNumDeploySteps = 0,
      pNumDeployAfterSteps = 0, pBoxName = '''', pBoxTag = '''', pStep = None,
      pStepName = '''', pStepOrder = 0, pSuccess = None, pMessage = '''',
      pDuration = None, pStartedBy = '''', pVCS = '''', pMetricsApplicationPayload = None\<rparr>"

definition AddEvent :: "'v KeenClient \<Rightarrow> string \<Rightarrow> 'v MetricsPayload \<Rightarrow> 'v KeenClient" where
  "AddEvent k collection p = k\<lparr>added := added k @ [(collection, p)]\<rparr>"

text \<open>
  A method of the handler returns the handler as it leaves it, and the message of the
  panic if it panicked.
\<close>

definition sendPayload ::
  "TimePkg \<Rightarrow> 'v MetricsEventHandler \<Rightarrow> ('v, 'o) sendPayloadArgs \<Rightarrow>
   'v MetricsEventHandler \<times> string option" where
  "sendPayload tm h args =
     (case getCollection (spOptions args) of
        Inl msg \<Rightarrow> (h, Some msg)
      | Inr collection \<Rightarrow>
          (case getPipelineName (spOptions args) of
             Inl msg \<Rightarrow> (h, Some msg)
           | Inr pipelineName \<Rightarrow>
               (let (boxName, boxTag) = getBoxDetails (spBox args);
                    p = (spP args)
                      \<lparr>pKeen := Some (FormatRFC3339 tm (spNow args)),
                       pTimestamp := Unix tm (spNow args),
                       pBuildID := BuildID (spOptions args),
                       pDeployID := DeployID (spOptions args),
                       pEvent := spEventName args,
                       pStartedBy := ApplicationStartedByName (spOptions args),
                       pMetricsApplicationPayload :=
                         Some \<lparr>mapID = ApplicationID (spOptions args),
                               mapName = ApplicationName (spOptions args),
                               mapOwnerName = ApplicationOwnerName (spOptions args)\<rparr>,
                       pSentCli := versions h,
                       pStack := 5,
                       pNumBuildSteps := numBuildSteps h,
                       pNumBuildAfterSteps := numBuildAfterSteps h,
                       pNumDeploySteps := numDeploySteps h,
                       pNumDeployAfterSteps := numDeployAfterSteps h,
                       pPipelineName := pipelineName,
                       pBoxName := boxName,
                       pBoxTag := boxTag\<rparr>
                in (h\<lparr>keen := AddEvent (keen h) collection p\<rparr>, None))))"

text \<open>
  \<^verbatim>\<open>BuildStepStarted\<close>; \<open>now\<close> is what \<^verbatim>\<open>time.Now()\<close> returns.  Assigning to an entry
  of the nil map panics.
\<close>

definition BuildStepStarted ::
  "TimePkg \<Rightarrow> 'v MetricsEventHandler \<Rightarrow> 'o BuildStepStartedArgs \<Rightarrow> Time \<Rightarrow>
   'v MetricsEventHandler \<times> string option" where
  "BuildStepStarted tm h args now =
     (case startStep h of
        None \<Rightarrow> (h, Some ''assignment to entry in nil map'')
      | Some m \<Rightarrow>
          (let h1 = h\<lparr>startStep := Some (m(csSafeID (argStep args) \<mapsto> now))\<rparr>;
               p = zeroPayload
                 \<lparr>pStep := Some (newMetricStepPayload (argStep args)),
                  pStepName := formatUniqueStepName (argStep args),
                  pStepOrder := argOrder args\<rparr>
           in sendPayload tm h1
                \<lparr>spP = p, spOptions = argOptions args, spBox = argBox args, spNow = now,
                 spEventName = ''buildStepStarted''\<rparr>))"

text \<open>\<^verbatim>\<open>BuildStepFinished\<close>.\<close>

definition BuildStepFinished ::
  "TimePkg \<Rightarrow> 'v MetricsEventHandler \<Rightarrow> 'o BuildStepFinishedArgs \<Rightarrow> Time \<Rightarrow>
   'v MetricsEventHandler \<times> string option" where
  "BuildStepFinished tm h args now =
     (let (duration, h1) =
            (case lookupStart h (csSafeID (argStep args)) of
               Some begin \<Rightarrow>
                 (SubSeconds tm now begin, deleteStart h (csSafeID (argStep args)))
             | None \<Rightarrow> (0, h));
          p = zeroPayload
            \<lparr>pStep := Some (newMetricStepPayload (argStep args)),
             pStepName := formatUniqueStepName (argStep args),
             pStepOrder := argOrder args,
             pDuration := Some duration,
             pSuccess := Some (argSuccessful args),
             pMessage := argMessage args\<rparr>
      in sendPayload tm h1
           \<lparr>spP = p, spOptions = argOptions args, spBox = argBox args, spNow = now,
            spEventName = ''buildStepFinished''\<rparr>)"

section \<open>Reading a trace\<close>

text \<open>
  The calls of \<^verbatim>\<open>RunStep\<close> for user steps (made with \<^verbatim>\<open>ctx\<close>) and for after-steps
  (made with \<^verbatim>\<open>newCtx\<close>), each with its step and order, in the order of the trace.
\<close>

fun userRun :: "Event \<Rightarrow> (Step \<times> nat) option" where
  "userRun (EvRunStep MainCtx s n) = Some (s, n)"
| "userRun e = None"

fun afterRun :: "Event \<Rightarrow> (Step \<times> nat) option" where
  "afterRun (EvRunStep NewCtx s n) = Some (s, n)"
| "afterRun e = None"

definition userRuns :: "Event list \<Rightarrow> (Step \<times> nat) list" where
  "userRuns tr = List.map_filter userRun tr"

definition afterRuns :: "Event list \<Rightarrow> (Step \<times> nat) list" where
  "afterRuns tr = List.map_filter afterRun tr"

text \<open>The call of \<^verbatim>\<open>RunStep\<close> with this context, step and order returned an error.\<close>

definition stepFails :: "World \<Rightarrow> Ctx \<Rightarrow> Step \<times> nat \<Rightarrow> bool" where
  "stepFails w c sn = (snd (RunStep w c (fst sn) (snd sn)) \<noteq> None)"

text \<open>The store phase was entered: \<^verbatim>\<open>StartStep\<close> was called for the store step.\<close>

fun isStoreStart :: "Event \<Rightarrow> bool" where
  "isStoreStart (EvStartStep s n) = (s = storeStep)"
| "isStoreStart e = False"

definition storeEntered :: "Event list \<Rightarrow> bool" where
  "storeEntered tr = list_ex isStoreStart tr"

text \<open>
  The run gets as far as announcing the steps: \<^verbatim>\<open>EnsureCode\<close> succeeded or its failure
  did not panic, and \<^verbatim>\<open>SetupEnvironment\<close> succeeded.
\<close>

definition reachesSteps :: "World \<Rightarrow> GlobalOptions \<Rightarrow> bool" where
  "reachesSteps w options =
     ((EnsureCode w = None \<or> \<not> Debug options) \<and> snd (SetupEnvironment w) = None)"

text \<open>
  The run gets as far as the loop over the after-steps, with \<open>p\<close> the pipeline result
  when the build finished: there are after-steps, and the restart of the box, the new
  session and the two exports of the environment succeeded.
\<close>

definition reachesAfterSteps :: "World \<Rightarrow> PipelineResult \<Rightarrow> bool" where
  "reachesAfterSteps w p =
     (AfterSteps w \<noteq> [] \<and> Restart w = None \<and> GetSession w = None \<and>
      PipelineExportEnvironment w = None \<and> ResultExportEnvironment w p = None)"

text \<open>
  The calls a loop over steps makes, starting at the given order: it goes through the
  steps and stops after the first call that fails.
\<close>

fun ranSteps :: "World \<Rightarrow> Ctx \<Rightarrow> Step list \<Rightarrow> nat \<Rightarrow> (Step \<times> nat) list" where
  "ranSteps w c [] n = []"
| "ranSteps w c (s # rest) n =
     (s, n) # (if stepFails w c (s, n) then [] else ranSteps w c rest (Suc n))"

section \<open>Example runs\<close>

definition stepA :: Step where
  "stepA = \<lparr>Name = ''a'', ID = ''1'', DisplayName = ''A''\<rparr>"

definition stepB :: Step where
  "stepB = \<lparr>Name = ''b'', ID = ''2'', DisplayName = ''B''\<rparr>"

definition stepZ :: Step where
  "stepZ = \<lparr>Name = ''z'', ID = ''3'', DisplayName = ''Z''\<rparr>"

definition plainOptions :: GlobalOptions where
  "plainOptions =
     \<lparr>Debug = False, ShouldRemove = False, ShouldCommit = False, ShouldPush = False,
      ShouldArtifacts = False, Registry = ''registry'', AuthToken = ''''\<rparr>"

definition passedStep :: StepResult where
  "passedStep =
     \<lparr>srSuccess = True, srArtifact = None, srMessage = '''', srPackageURL = '''',
      srExitCode = 0\<rparr>"

definition failedStep :: StepResult where
  "failedStep =
     \<lparr>srSuccess = False, srArtifact = None, srMessage = ''tests failed'', srPackageURL = '''',
      srExitCode = 1\<rparr>"

definition allPass :: "Ctx \<Rightarrow> Step \<Rightarrow> nat \<Rightarrow> StepResult \<times> error option" where
  "allPass c s n = (passedStep, None)"

definition allFail :: "Ctx \<Rightarrow> Step \<Rightarrow> nat \<Rightarrow> StepResult \<times> error option" where
  "allFail c s n = (failedStep, Some ''exit status 1'')"

definition uploadOk :: "Artifact \<Rightarrow> error option" where
  "uploadOk a = None"

definition exportOk :: "PipelineResult \<Rightarrow> error option" where
  "exportOk p = None"

text \<open>One user step, no after-step, and every collaborator call succeeds.\<close>

definition plainWorld :: World where
  "plainWorld =
     \<lparr>NewGlobalOptions = Inr plainOptions, EnsureCode = None,
      SetupEnvironment = (True, None), Steps = [stepA], AfterSteps = [],
      DockerRepo = ''repo'', DockerTag = ''tag'', DockerMessage = ''message'',
      RunStep = allPass, Push = None, CollectArtifact = Inr \<lparr>URL = ''url''\<rparr>,
      Upload = uploadOk, Restart = None, GetSession = None,
      PipelineExportEnvironment = None, ResultExportEnvironment = exportOk\<rparr>"

text \<open>The user step fails, the image is to be pushed, and the push succeeds.\<close>

definition pushAfterFailureWorld :: World where
  "pushAfterFailureWorld =
     plainWorld\<lparr>NewGlobalOptions := Inr (plainOptions\<lparr>ShouldPush := True\<rparr>),
                RunStep := allFail\<rparr>"

text \<open>The steps pass, there is an after-step, and exporting the environment fails.\<close>

definition exportFailsWorld :: World where
  "exportFailsWorld =
     plainWorld\<lparr>AfterSteps := [stepZ], PipelineExportEnvironment := Some ''no session''\<rparr>"

text \<open>The user step fails and there is no after-step.\<close>

definition failureWorld :: World where
  "failureWorld = plainWorld\<lparr>RunStep := allFail\<rparr>"

text \<open>Fetching the code fails, outside debug mode.\<close>

definition noCodeWorld :: World where
  "noCodeWorld = plainWorld\<lparr>EnsureCode := Some ''no code''\<rparr>"

text \<open>Two user steps of which the first fails; push and artifacts are both asked for.\<close>

definition twoStepsWorld :: World where
  "twoStepsWorld =
     plainWorld\<lparr>NewGlobalOptions :=
                  Inr (plainOptions\<lparr>ShouldPush := True, ShouldArtifacts := True\<rparr>),
                Steps := [stepA, stepB], RunStep := allFail\<rparr>"

text \<open>The box is to be removed, and setting up the environment fails with a box.\<close>

definition removeWorld :: World where
  "removeWorld =
     plainWorld\<lparr>NewGlobalOptions := Inr (plainOptions\<lparr>ShouldRemove := True\<rparr>),
                SetupEnvironment := (True, Some ''no network'')\<rparr>"

text \<open>The user step fails, and so does the first of two after-steps.\<close>

definition afterStepsWorld :: World where
  "afterStepsWorld = plainWorld\<lparr>AfterSteps := [stepZ, stepB], RunStep := allFail\<rparr>"

text \<open>A clock in nanoseconds.\<close>

definition unixOf :: "Time \<Rightarrow> int" where
  "unixOf t = t div 1000000000"

definition formatOf :: "Time \<Rightarrow> string" where
  "formatOf t = ''1970-01-01T00:00:00Z''"

definition secondsBetween :: "Time \<Rightarrow> Time \<Rightarrow> int" where
  "secondsBetween t u = (t - u) div 1000000000"

definition clock :: TimePkg where
  "clock = \<lparr>Unix = unixOf, FormatRFC3339 = formatOf, SubSeconds = secondsBetween\<rparr>"

definition buildOptions :: PipelineOptions where
  "buildOptions =
     \<lparr>Debug = False, ShouldRemove = False, ShouldCommit = False, ShouldPush = False,
      ShouldArtifacts = False, Registry = ''registry'', AuthToken = '''',
      KeenProjectWriteKey = ''key'', KeenProjectID = ''project'', BuildID = ''build-1'',
      DeployID = '''', ApplicationStartedByName = ''me'', ApplicationID = ''app-1'',
      ApplicationName = ''app'', ApplicationOwnerName = ''owner''\<rparr>"

text \<open>Options that name neither a build nor a deploy, outside debug mode.\<close>

definition noIDOptions :: PipelineOptions where
  "noIDOptions = buildOptions\<lparr>BuildID := ''''\<rparr>"

definition coreStep :: CoreStep where
  "coreStep = \<lparr>csOwner = ''wercker'', csName = ''script'', csVersion = ''1.0'',
               csSafeID = ''script-1''\<rparr>"

definition newHandler :: "unit MetricsEventHandler" where
  "newHandler =
     \<lparr>keen = \<lparr>WriteKey = ''key'', ProjectID = ''project'', added = []\<rparr>,
      startStep = Some Map.empty, startBuild = 0, versions = None,
      numBuildSteps = 0, numBuildAfterSteps = 0, numDeploySteps = 0,
      numDeployAfterSteps = 0\<rparr>"

text \<open>The handler after the start of the step was recorded at instant 2000000000.\<close>

definition startedHandler :: "unit MetricsEventHandler" where
  "startedHandler = newHandler\<lparr>startStep := Some [''script-1'' \<mapsto> 2000000000]\<rparr>"

definition finishedArgs :: "unit BuildStepFinishedArgs" where
  "finishedArgs =
     \<lparr>argStep = coreStep, argOrder = 3, argOptions = buildOptions, argBox = None,
      argSuccessful = True, argMessage = ''''\<rparr>"

definition finishedNoIDArgs :: "unit BuildStepFinishedArgs" where
  "finishedNoIDArgs = finishedArgs\<lparr>argOptions := noIDOptions\<rparr>"

definition sendNoIDArgs :: "(unit, unit) sendPayloadArgs" where
  "sendNoIDArgs =
     \<lparr>spP = zeroPayload, spOptions = noIDOptions, spBox = None, spNow = 7000000000,
      spEventName = ''buildStarted''\<rparr>"

section \<open>Facts about traces and phases\<close>

lemma emit_simps [simp]:
  "trace (emit e st) = trace st @ [e]"
  "pr (emit e st) = pr st"
  "stepCounter (emit e st) = stepCounter st"
  by (simp_all add: emit_def)

lemma userRuns_simps [simp]:
  "userRuns [] = []"
  "userRuns (a @ b) = userRuns a @ userRuns b"
  "userRuns (e # es) = (case userRun e of None \<Rightarrow> userRuns es | Some x \<Rightarrow> x # userRuns es)"
  by (simp_all add: userRuns_def map_filter_def split: option.splits)

lemma afterRuns_simps [simp]:
  "afterRuns [] = []"
  "afterRuns (a @ b) = afterRuns a @ afterRuns b"
  "afterRuns (e # es) = (case afterRun e of None \<Rightarrow> afterRuns es | Some x \<Rightarrow> x # afterRuns es)"
  by (simp_all add: afterRuns_def map_filter_def split: option.splits)

lemma storeEntered_simps [simp]:
  "storeEntered [] = False"
  "storeEntered (a @ b) = (storeEntered a \<or> storeEntered b)"
  "storeEntered (e # es) = (isStoreStart e \<or> storeEntered es)"
  by (simp_all add: storeEntered_def)

subsection \<open>What a loop runs\<close>

lemma ranSteps_butlast: "\<forall>sn \<in> set (butlast (ranSteps w c steps n)). \<not> stepFails w c sn"
  by (induction steps arbitrary: n) auto

lemma ranSteps_last:
  "list_ex (stepFails w c) (ranSteps w c steps n) \<Longrightarrow> stepFails w c (last (ranSteps w c steps n))"
  by (induction steps arbitrary: n) (auto split: if_splits)

lemma ranSteps_prefix:
  "map fst (ranSteps w c steps n) = take (length (ranSteps w c steps n)) steps"
  by (induction steps arbitrary: n) auto

subsection \<open>The loop over the user steps\<close>

lemma runSteps_userRuns:
  "userRuns (trace (runSteps w options steps st)) =
   userRuns (trace st) @ ranSteps w MainCtx steps (stepCounter st)"
  by (induction steps arbitrary: st)
    (simp_all add: Increment_def stepFails_def Let_def split: prod.splits option.splits)

lemma runSteps_afterRuns:
  "afterRuns (trace (runSteps w options steps st)) = afterRuns (trace st)"
  by (induction steps arbitrary: st)
    (simp_all add: Increment_def Let_def split: prod.splits option.splits)

lemma runSteps_storeEntered:
  "storeEntered (trace (runSteps w options steps st)) = storeEntered (trace st)"
  by (induction steps arbitrary: st)
    (simp_all add: Increment_def Let_def split: prod.splits option.splits)

lemma runSteps_no_cleanup:
  "EvBoxStop \<notin> set (trace st) \<Longrightarrow> EvBoxClean \<notin> set (trace st) \<Longrightarrow>
   EvBoxStop \<notin> set (trace (runSteps w options steps st)) \<and>
   EvBoxClean \<notin> set (trace (runSteps w options steps st))"
  by (induction steps arbitrary: st)
    (simp_all add: Increment_def Let_def split: prod.splits option.splits)

lemma runSteps_Success:
  "Success (pr (runSteps w options steps st)) =
   (Success (pr st) \<and> \<not> list_ex (stepFails w MainCtx) (ranSteps w MainCtx steps (stepCounter st)))"
  by (induction steps arbitrary: st)
    (simp_all add: Increment_def stepFails_def Let_def split: prod.splits option.splits)

subsection \<open>The store phase\<close>

lemmas store_defs =
  storePhase_def storeClosure_def pushPart_def artifactPart_def Increment_def Let_def

lemma storePhase_userRuns:
  "userRuns (trace (storePhase w options st)) = userRuns (trace st)"
  by (simp add: store_defs split: option.splits sum.splits prod.splits)

lemma storePhase_afterRuns:
  "afterRuns (trace (storePhase w options st)) = afterRuns (trace st)"
  by (simp add: store_defs split: option.splits sum.splits prod.splits)

lemma storePhase_storeEntered:
  "storeEntered (trace (storePhase w options st)) =
   (storeEntered (trace st) \<or> ShouldPush options \<or> (Success (pr st) \<and> ShouldArtifacts options))"
  by (auto simp add: store_defs split: option.splits sum.splits prod.splits)

lemma storePhase_no_cleanup:
  "EvBoxStop \<notin> set (trace st) \<Longrightarrow> EvBoxClean \<notin> set (trace st) \<Longrightarrow>
   EvBoxStop \<notin> set (trace (storePhase w options st)) \<and>
   EvBoxClean \<notin> set (trace (storePhase w options st))"
  by (simp add: store_defs split: option.splits sum.splits prod.splits)

subsection \<open>The state when the store phase begins\<close>

lemma runUserSteps_userRuns:
  "userRuns (trace (runUserSteps w options)) = ranSteps w MainCtx (Steps w) 3"
  by (simp add: runUserSteps_def commitAfterSteps_def announceSteps_def runSteps_userRuns)

lemma runUserSteps_Success:
  "Success (pr (runUserSteps w options)) =
   (\<not> list_ex (stepFails w MainCtx) (ranSteps w MainCtx (Steps w) 3))"
  by (simp add: runUserSteps_def commitAfterSteps_def announceSteps_def runSteps_Success)

lemma runUserSteps_storeEntered:
  "\<not> storeEntered (trace (runUserSteps w options))"
  by (simp add: runUserSteps_def commitAfterSteps_def announceSteps_def runSteps_storeEntered)

lemma runUserSteps_afterRuns:
  "afterRuns (trace (runUserSteps w options)) = []"
  by (simp add: runUserSteps_def commitAfterSteps_def announceSteps_def runSteps_afterRuns)

lemma runUserSteps_no_cleanup:
  "EvBoxStop \<notin> set (trace (runUserSteps w options)) \<and>
   EvBoxClean \<notin> set (trace (runUserSteps w options))"
  using runSteps_no_cleanup [of "announceSteps w" w options "Steps w"]
  by (simp add: runUserSteps_def commitAfterSteps_def announceSteps_def)

subsection \<open>The after-steps\<close>

lemma runAfterSteps_pr: "pr (runAfterSteps w steps st) = pr st"
  by (induction steps arbitrary: st)
    (simp_all add: Increment_def Let_def split: prod.splits option.splits)

lemma runAfterSteps_userRuns:
  "userRuns (trace (runAfterSteps w steps st)) = userRuns (trace st)"
  by (induction steps arbitrary: st)
    (simp_all add: Increment_def Let_def split: prod.splits option.splits)

lemma runAfterSteps_storeEntered:
  "storeEntered (trace (runAfterSteps w steps st)) = storeEntered (trace st)"
  by (induction steps arbitrary: st)
    (simp_all add: Increment_def Let_def split: prod.splits option.splits)

lemma runAfterSteps_afterRuns:
  "afterRuns (trace (runAfterSteps w steps st)) =
   afterRuns (trace st) @ ranSteps w NewCtx steps (stepCounter st)"
  by (induction steps arbitrary: st)
    (simp_all add: Increment_def Let_def stepFails_def split: prod.splits option.splits)

lemma runAfterSteps_no_cleanup:
  "EvBoxStop \<notin> set (trace st) \<Longrightarrow> EvBoxClean \<notin> set (trace st) \<Longrightarrow>
   EvBoxStop \<notin> set (trace (runAfterSteps w steps st)) \<and>
   EvBoxClean \<notin> set (trace (runAfterSteps w steps st))"
  by (induction steps arbitrary: st)
    (simp_all add: Increment_def Let_def split: prod.splits option.splits)

lemma runAfterSteps_keeps:
  "e \<in> set (trace st) \<Longrightarrow> e \<in> set (trace (runAfterSteps w steps st))"
  by (induction steps arbitrary: st)
    (simp_all add: Increment_def Let_def split: prod.splits option.splits)

lemma afterPhase_pr: "pr (snd (afterPhase w st)) = pr st"
  by (simp add: afterPhase_def Let_def runAfterSteps_pr split: option.splits)

lemma afterPhase_userRuns:
  "userRuns (trace (snd (afterPhase w st))) = userRuns (trace st)"
  by (simp add: afterPhase_def Let_def runAfterSteps_userRuns split: option.splits)

lemma afterPhase_storeEntered:
  "storeEntered (trace (snd (afterPhase w st))) = storeEntered (trace st)"
  by (simp add: afterPhase_def Let_def runAfterSteps_storeEntered split: option.splits)

lemma afterPhase_no_cleanup:
  "EvBoxStop \<notin> set (trace st) \<Longrightarrow> EvBoxClean \<notin> set (trace st) \<Longrightarrow>
   EvBoxStop \<notin> set (trace (snd (afterPhase w st))) \<and>
   EvBoxClean \<notin> set (trace (snd (afterPhase w st)))"
  using runAfterSteps_no_cleanup
  by (simp add: afterPhase_def Let_def split: option.splits)

lemma afterPhase_afterRuns:
  "afterRuns (trace (snd (afterPhase w st))) =
   afterRuns (trace st) @
   (if reachesAfterSteps w (pr st)
    then ranSteps w NewCtx (AfterSteps w) (stepCounter st) else [])"
  by (simp add: afterPhase_def Let_def runAfterSteps_afterRuns reachesAfterSteps_def
      split: option.splits)

lemma afterPhase_outcome:
  "reachesAfterSteps w (pr st) \<Longrightarrow>
   fst (afterPhase w st) =
   Returned (if Success (pr st) then None
             else Some (''Step failed: '' @ FailedStepName (pr st)))"
  by (simp add: afterPhase_def Let_def runAfterSteps_pr reachesAfterSteps_def
      split: option.splits)

lemma afterPhase_no_after_steps:
  "AfterSteps w = [] \<Longrightarrow> fst (afterPhase w st) = Returned None"
  by (simp add: afterPhase_def Let_def)

lemma afterPhase_finishes_build:
  "EvFinishBuild (Success (pr st)) \<in> set (trace (snd (afterPhase w st)))"
  by (simp add: afterPhase_def Let_def runAfterSteps_keeps split: option.splits)

subsection \<open>The body from the announcement of the steps on\<close>

lemma pipelineBody_pr:
  "pr (snd (pipelineBody w options)) = pr (runToStore w options)"
  by (simp add: pipelineBody_def afterPhase_pr)

lemma pipelineBody_userRuns:
  "userRuns (trace (snd (pipelineBody w options))) = ranSteps w MainCtx (Steps w) 3"
  by (simp add: pipelineBody_def runToStore_def afterPhase_userRuns storePhase_userRuns
      runUserSteps_userRuns)

lemma pipelineBody_storeEntered:
  "storeEntered (trace (snd (pipelineBody w options))) =
   (ShouldPush options \<or>
    (\<not> list_ex (stepFails w MainCtx) (ranSteps w MainCtx (Steps w) 3) \<and>
     ShouldArtifacts options))"
  by (simp add: pipelineBody_def runToStore_def afterPhase_storeEntered
      storePhase_storeEntered runUserSteps_storeEntered runUserSteps_Success)

lemma pipelineBody_afterRuns:
  "afterRuns (trace (snd (pipelineBody w options))) =
   (if reachesAfterSteps w (pr (runToStore w options))
    then ranSteps w NewCtx (AfterSteps w) (stepCounter (runToStore w options)) else [])"
  by (simp add: pipelineBody_def afterPhase_afterRuns)
    (simp add: runToStore_def storePhase_afterRuns runUserSteps_afterRuns)

lemma pipelineBody_no_cleanup:
  "EvBoxStop \<notin> set (trace (snd (pipelineBody w options))) \<and>
   EvBoxClean \<notin> set (trace (snd (pipelineBody w options)))"
  unfolding pipelineBody_def runToStore_def
  by (intro afterPhase_no_cleanup storePhase_no_cleanup [THEN conjunct1]
      storePhase_no_cleanup [THEN conjunct2] runUserSteps_no_cleanup [THEN conjunct1]
      runUserSteps_no_cleanup [THEN conjunct2])

lemma pipelineBody_finishes_build:
  "EvFinishBuild (Success (pr (runToStore w options))) \<in>
   set (trace (snd (pipelineBody w options)))"
  by (simp add: pipelineBody_def afterPhase_finishes_build)

subsection \<open>The whole function\<close>

lemma executePipeline_reaches:
  assumes "NewGlobalOptions w = Inr options" and "reachesSteps w options"
  shows "executePipeline w =
    \<lparr>outcome = fst (pipelineBody w options),
     events = EvStartBuild # EvEnsureCode #
       (case EnsureCode w of None \<Rightarrow> [] | Some err \<Rightarrow> [EvLogErrorln [err]]) @
       EvSetupEnvironment # trace (snd (pipelineBody w options)) @
       deferredCalls (fst (SetupEnvironment w)) options @ [EvFinishBuild False],
     result = Some (pr (snd (pipelineBody w options)))\<rparr>"
  using assms
  by (auto simp add: executePipeline_def ensureAndRun_def setupAndRun_def Exit_def
      reachesSteps_def Let_def split: option.splits prod.splits)

lemma executePipeline_stops:
  assumes "NewGlobalOptions w = Inr options" and "\<not> reachesSteps w options"
  shows "result (executePipeline w) = None \<and>
    userRuns (events (executePipeline w)) = [] \<and>
    afterRuns (events (executePipeline w)) = [] \<and>
    \<not> storeEntered (events (executePipeline w))"
  using assms
  by (auto simp add: executePipeline_def ensureAndRun_def setupAndRun_def Exit_def
      reachesSteps_def deferredCalls_def Let_def split: option.splits prod.splits)

lemma executePipeline_userRuns:
  assumes "NewGlobalOptions w = Inr options"
  shows "userRuns (events (executePipeline w)) =
    (if reachesSteps w options then ranSteps w MainCtx (Steps w) 3 else [])"
proof (cases "reachesSteps w options")
  case True
  show ?thesis
    by (simp add: executePipeline_reaches [OF assms True] True pipelineBody_userRuns
        deferredCalls_def split: option.splits)
next
  case False
  then show ?thesis using executePipeline_stops [OF assms False] by simp
qed

lemma executePipeline_storeEntered:
  assumes "NewGlobalOptions w = Inr options" and "reachesSteps w options"
  shows "storeEntered (events (executePipeline w)) =
    (ShouldPush options \<or>
     (\<not> list_ex (stepFails w MainCtx) (ranSteps w MainCtx (Steps w) 3) \<and>
      ShouldArtifacts options))"
  by (simp add: executePipeline_reaches [OF assms] pipelineBody_storeEntered
      deferredCalls_def split: option.splits)

lemma executePipeline_afterRuns:
  assumes "NewGlobalOptions w = Inr options"
  shows "afterRuns (events (executePipeline w)) =
    (if reachesSteps w options \<and> reachesAfterSteps w (pr (runToStore w options))
     then ranSteps w NewCtx (AfterSteps w) (stepCounter (runToStore w options)) else [])"
proof (cases "reachesSteps w options")
  case True
  show ?thesis
    by (simp add: executePipeline_reaches [OF assms True] True pipelineBody_afterRuns
        deferredCalls_def split: option.splits)
next
  case False
  then show ?thesis using executePipeline_stops [OF assms False] by simp
qed

lemma cleanup_shape:
  assumes "E = pre @ [EvBoxStop, EvBoxClean, EvFinishBuild False]"
    and "EvBoxStop \<notin> set pre" and "EvBoxClean \<notin> set pre"
  shows "count_list E EvBoxClean = 1 \<and>
    (\<exists>pre. E = pre @ [EvBoxStop, EvBoxClean, EvFinishBuild False] \<and>
       EvBoxStop \<notin> set pre \<and> EvBoxClean \<notin> set pre)"
  using assms by (auto simp add: count_list_0_iff)

subsection \<open>Unfolding a concrete run\<close>

lemmas run_defs =
  executePipeline_def ensureAndRun_def setupAndRun_def pipelineBody_def runToStore_def
  runUserSteps_def announceSteps_def commitAfterSteps_def storePhase_def storeClosure_def
  pushPart_def artifactPart_def afterPhase_def deferredCalls_def Exit_def Increment_def
  emit_def Let_def

lemmas world_defs =
  plainWorld_def plainOptions_def allPass_def allFail_def uploadOk_def exportOk_def

section \<open>The claims about the runner\<close>

text \<open>
  C1, evaluated on the code: a user step fails, so the pipeline result is a failure
  when the store phase begins; \<^verbatim>\<open>ShouldPush\<close> is set and the push succeeds.  The store
  phase then sets \<^verbatim>\<open>Success\<close> back to true and clears the name and message of the failed
  step: the build is reported as passed and the function returns no error.
\<close>

theorem store_phase_passes_failed_build:
  "stepFails pushAfterFailureWorld MainCtx (stepA, 3) \<and>
   pr (runUserSteps pushAfterFailureWorld (plainOptions\<lparr>ShouldPush := True\<rparr>)) =
     \<lparr>Success = False, FailedStepName = ''A'', FailedStepMessage = ''tests failed''\<rparr> \<and>
   pr (runToStore pushAfterFailureWorld (plainOptions\<lparr>ShouldPush := True\<rparr>)) =
     \<lparr>Success = True, FailedStepName = '''', FailedStepMessage = ''''\<rparr> \<and>
   result (executePipeline pushAfterFailureWorld) =
     Some \<lparr>Success = True, FailedStepName = '''', FailedStepMessage = ''''\<rparr> \<and>
   EvFinishBuild True \<in> set (events (executePipeline pushAfterFailureWorld)) \<and>
   outcome (executePipeline pushAfterFailureWorld) = Returned None"
  by (simp add: run_defs world_defs pushAfterFailureWorld_def stepFails_def stepA_def
      failedStep_def storeStep_def)

text \<open>
  C2, as amended: in every run that creates the pipeline result and in which, when there
  are after-steps, the restart of the box, the new session and the two exports of the
  environment succeed, the function returns no error if the final \<^verbatim>\<open>Success\<close> is true,
  and, if it is false and there are after-steps, the error \<^verbatim>\<open>Step failed:\<close> followed
  by the name of the failed step.
\<close>

theorem return_value_follows_result:
  assumes "NewGlobalOptions w = Inr options"
    and "reachesSteps w options"
    and "AfterSteps w \<noteq> [] \<longrightarrow> reachesAfterSteps w (pr (runToStore w options))"
  shows "\<exists>p. result (executePipeline w) = Some p \<and>
    (Success p \<longrightarrow> outcome (executePipeline w) = Returned None) \<and>
    (\<not> Success p \<and> AfterSteps w \<noteq> [] \<longrightarrow>
       outcome (executePipeline w) = Returned (Some (''Step failed: '' @ FailedStepName p)))"
proof (cases "AfterSteps w = []")
  case True
  then show ?thesis
    by (simp add: executePipeline_reaches [OF assms(1,2)] pipelineBody_def
        afterPhase_no_after_steps)
next
  case False
  then have "reachesAfterSteps w (pr (runToStore w options))" using assms(3) by simp
  from afterPhase_outcome [OF this] show ?thesis
    by (simp add: executePipeline_reaches [OF assms(1,2)] pipelineBody_def afterPhase_pr)
qed

text \<open>Witness of C2: a run whose user step and first after-step fail.\<close>

theorem return_value_follows_result_witness:
  "NewGlobalOptions afterStepsWorld = Inr plainOptions \<and>
   reachesSteps afterStepsWorld plainOptions \<and>
   AfterSteps afterStepsWorld \<noteq> [] \<and>
   reachesAfterSteps afterStepsWorld (pr (runToStore afterStepsWorld plainOptions)) \<and>
   result (executePipeline afterStepsWorld) =
     Some \<lparr>Success = False, FailedStepName = ''A'', FailedStepMessage = ''tests failed''\<rparr> \<and>
   outcome (executePipeline afterStepsWorld) = Returned (Some ''Step failed: A'') \<and>
   NewGlobalOptions plainWorld = Inr plainOptions \<and>
   reachesSteps plainWorld plainOptions \<and>
   AfterSteps plainWorld = [] \<and>
   result (executePipeline plainWorld) =
     Some \<lparr>Success = True, FailedStepName = '''', FailedStepMessage = ''''\<rparr> \<and>
   outcome (executePipeline plainWorld) = Returned None"
proof -
  have opts: "NewGlobalOptions afterStepsWorld = Inr plainOptions"
    by (simp add: afterStepsWorld_def plainWorld_def)
  have steps: "reachesSteps afterStepsWorld plainOptions"
    by (simp add: reachesSteps_def afterStepsWorld_def plainWorld_def plainOptions_def)
  have some: "AfterSteps afterStepsWorld \<noteq> []"
    by (simp add: afterStepsWorld_def)
  have loop: "reachesAfterSteps afterStepsWorld (pr (runToStore afterStepsWorld plainOptions))"
    by (simp add: reachesAfterSteps_def afterStepsWorld_def plainWorld_def exportOk_def)
  have res: "result (executePipeline afterStepsWorld) =
      Some \<lparr>Success = False, FailedStepName = ''A'', FailedStepMessage = ''tests failed''\<rparr>"
    by (simp add: run_defs world_defs afterStepsWorld_def stepA_def failedStep_def)
  have opts': "NewGlobalOptions plainWorld = Inr plainOptions"
    by (simp add: plainWorld_def)
  have steps': "reachesSteps plainWorld plainOptions"
    by (simp add: reachesSteps_def plainWorld_def plainOptions_def)
  have none: "AfterSteps plainWorld = []"
    by (simp add: plainWorld_def)
  have res': "result (executePipeline plainWorld) =
      Some \<lparr>Success = True, FailedStepName = '''', FailedStepMessage = ''''\<rparr>"
    by (simp add: run_defs world_defs)
  show ?thesis
    using opts steps some loop res opts' steps' none res'
      return_value_follows_result [OF opts steps] return_value_follows_result [OF opts' steps']
    by simp
qed

text \<open>
  Counterexample to C2 as stated: the steps pass, so the final \<^verbatim>\<open>Success\<close> is true, the
  export of the pipeline environment for the after-steps fails, and the function returns
  that error.
\<close>

theorem export_failure_returns_error_on_success:
  "result (executePipeline exportFailsWorld) =
     Some \<lparr>Success = True, FailedStepName = '''', FailedStepMessage = ''''\<rparr> \<and>
   outcome (executePipeline exportFailsWorld) = Returned (Some ''no session'')"
  by (simp add: run_defs world_defs exportFailsWorld_def)

text \<open>
  The other way C2 fails: with no after-step the function returns no error whatever the
  result is, here after a failed user step.
\<close>

lemma failed_build_without_after_steps_returns_nil:
  "result (executePipeline failureWorld) =
     Some \<lparr>Success = False, FailedStepName = ''A'', FailedStepMessage = ''tests failed''\<rparr> \<and>
   outcome (executePipeline failureWorld) = Returned None"
  by (simp add: run_defs world_defs failureWorld_def stepA_def failedStep_def)

text \<open>
  C3, evaluated on the code: \<^verbatim>\<open>EnsureCode\<close> fails outside debug mode.  \<^verbatim>\<open>SoftExit\<close> is
  invoked and logs the error, but the function goes on: \<^verbatim>\<open>SetupEnvironment\<close> is called,
  the steps are announced and the user step runs.
\<close>

theorem ensure_code_failure_goes_on:
  "EnsureCode noCodeWorld = Some ''no code'' \<and>
   events (executePipeline noCodeWorld) =
     [EvStartBuild, EvEnsureCode, EvLogErrorln [''no code''], EvSetupEnvironment,
      EvBuildStepsAdded [stepA] storeStep [], EvRunStep MainCtx stepA 3,
      EvFinishBuild True, EvBoxStop, EvFinishBuild False] \<and>
   outcome (executePipeline noCodeWorld) = Returned None"
  by (simp add: run_defs world_defs noCodeWorld_def)

text \<open>
  C4: in every run in which a call of \<^verbatim>\<open>RunStep\<close> for a user step fails, the failing
  call is the last one for a user step and no earlier one failed, the steps run are an
  initial part of the pipeline's steps, and the store phase is entered if and only if
  \<^verbatim>\<open>ShouldPush\<close> is set.
\<close>

theorem failed_user_step_ends_loop_and_store_iff_push:
  assumes "NewGlobalOptions w = Inr options"
    and "list_ex (stepFails w MainCtx) (userRuns (events (executePipeline w)))"
  shows "stepFails w MainCtx (last (userRuns (events (executePipeline w)))) \<and>
    (\<forall>sn \<in> set (butlast (userRuns (events (executePipeline w)))). \<not> stepFails w MainCtx sn) \<and>
    map fst (userRuns (events (executePipeline w))) =
      take (length (userRuns (events (executePipeline w)))) (Steps w) \<and>
    (storeEntered (events (executePipeline w)) \<longleftrightarrow> ShouldPush options)"
proof -
  have reach: "reachesSteps w options"
    using assms executePipeline_userRuns [OF assms(1)] by (cases "reachesSteps w options") auto
  have runs: "userRuns (events (executePipeline w)) = ranSteps w MainCtx (Steps w) 3"
    using executePipeline_userRuns [OF assms(1)] reach by simp
  have failed: "list_ex (stepFails w MainCtx) (ranSteps w MainCtx (Steps w) 3)"
    using assms(2) runs by simp
  show ?thesis
    unfolding runs executePipeline_storeEntered [OF assms(1) reach]
    using failed ranSteps_last [OF failed] ranSteps_butlast [of w MainCtx "Steps w" 3]
      ranSteps_prefix [of w MainCtx "Steps w" 3]
    by simp
qed

text \<open>
  Witness of C4: the first of two user steps fails, with \<^verbatim>\<open>ShouldPush\<close> and
  \<^verbatim>\<open>ShouldArtifacts\<close> both set.
\<close>

theorem failed_user_step_ends_loop_and_store_iff_push_witness:
  "NewGlobalOptions twoStepsWorld =
     Inr (plainOptions\<lparr>ShouldPush := True, ShouldArtifacts := True\<rparr>) \<and>
   list_ex (stepFails twoStepsWorld MainCtx) (userRuns (events (executePipeline twoStepsWorld))) \<and>
   userRuns (events (executePipeline twoStepsWorld)) = [(stepA, 3)] \<and>
   stepFails twoStepsWorld MainCtx (last (userRuns (events (executePipeline twoStepsWorld)))) \<and>
   (storeEntered (events (executePipeline twoStepsWorld)) \<longleftrightarrow>
      ShouldPush (plainOptions\<lparr>ShouldPush := True, ShouldArtifacts := True\<rparr>))"
proof -
  have opts: "NewGlobalOptions twoStepsWorld =
      Inr (plainOptions\<lparr>ShouldPush := True, ShouldArtifacts := True\<rparr>)"
    by (simp add: twoStepsWorld_def plainWorld_def)
  have runs: "userRuns (events (executePipeline twoStepsWorld)) = [(stepA, 3)]"
    by (simp add: run_defs world_defs twoStepsWorld_def userRuns_def map_filter_def)
  have fails: "list_ex (stepFails twoStepsWorld MainCtx)
      (userRuns (events (executePipeline twoStepsWorld)))"
    unfolding runs by (simp add: stepFails_def twoStepsWorld_def allFail_def)
  show ?thesis
    using opts runs fails failed_user_step_ends_loop_and_store_iff_push [OF opts fails]
    by simp
qed

text \<open>
  C5: in every run in which \<^verbatim>\<open>SetupEnvironment\<close> was called and gave a box, with
  \<^verbatim>\<open>ShouldRemove\<close> set, \<^verbatim>\<open>Box.Clean\<close> is called exactly once, and the run ends with
  \<^verbatim>\<open>Box.Stop\<close>, then \<^verbatim>\<open>Box.Clean\<close>, then the deferred finish of the build, whether
  the function returns or panics.
\<close>

theorem box_cleaned_once_after_stop:
  assumes "NewGlobalOptions w = Inr options"
    and "ShouldRemove options"
    and "EvSetupEnvironment \<in> set (events (executePipeline w))"
    and "fst (SetupEnvironment w)"
  shows "count_list (events (executePipeline w)) EvBoxClean = 1 \<and>
    (\<exists>pre. events (executePipeline w) = pre @ [EvBoxStop, EvBoxClean, EvFinishBuild False] \<and>
       EvBoxStop \<notin> set pre \<and> EvBoxClean \<notin> set pre)"
proof (cases "reachesSteps w options")
  case True
  let ?pre = "EvStartBuild # EvEnsureCode #
       (case EnsureCode w of None \<Rightarrow> [] | Some err \<Rightarrow> [EvLogErrorln [err]]) @
       EvSetupEnvironment # trace (snd (pipelineBody w options))"
  have "events (executePipeline w) = ?pre @ [EvBoxStop, EvBoxClean, EvFinishBuild False]"
    using assms by (simp add: executePipeline_reaches [OF assms(1) True] deferredCalls_def)
  moreover have "EvBoxStop \<notin> set ?pre" "EvBoxClean \<notin> set ?pre"
    using pipelineBody_no_cleanup [of w options] by (auto split: option.splits)
  ultimately show ?thesis by (rule cleanup_shape)
next
  case False
  let ?pre = "EvStartBuild # EvEnsureCode #
       (case EnsureCode w of None \<Rightarrow> [] | Some err \<Rightarrow> [EvLogErrorln [err]]) @
       EvSetupEnvironment # fst (Exit options [the (snd (SetupEnvironment w))])"
  have "events (executePipeline w) = ?pre @ [EvBoxStop, EvBoxClean, EvFinishBuild False]"
    using assms False
    by (auto simp add: executePipeline_def ensureAndRun_def setupAndRun_def Exit_def
        reachesSteps_def deferredCalls_def Let_def split: option.splits prod.splits)
  moreover have "EvBoxStop \<notin> set ?pre" "EvBoxClean \<notin> set ?pre"
    by (auto simp add: Exit_def split: option.splits)
  ultimately show ?thesis by (rule cleanup_shape)
qed

text \<open>Witness of C5: setting up the environment fails after the box was created.\<close>

theorem box_cleaned_once_after_stop_witness:
  "NewGlobalOptions removeWorld = Inr (plainOptions\<lparr>ShouldRemove := True\<rparr>) \<and>
   ShouldRemove (plainOptions\<lparr>ShouldRemove := True\<rparr>) \<and>
   EvSetupEnvironment \<in> set (events (executePipeline removeWorld)) \<and>
   fst (SetupEnvironment removeWorld) \<and>
   count_list (events (executePipeline removeWorld)) EvBoxClean = 1 \<and>
   (\<exists>pre. events (executePipeline removeWorld) =
            pre @ [EvBoxStop, EvBoxClean, EvFinishBuild False] \<and>
          EvBoxStop \<notin> set pre \<and> EvBoxClean \<notin> set pre)"
proof -
  have opts: "NewGlobalOptions removeWorld = Inr (plainOptions\<lparr>ShouldRemove := True\<rparr>)"
    by (simp add: removeWorld_def plainWorld_def)
  have remove: "ShouldRemove (plainOptions\<lparr>ShouldRemove := True\<rparr>)"
    by simp
  have called: "EvSetupEnvironment \<in> set (events (executePipeline removeWorld))"
    by (simp add: run_defs world_defs removeWorld_def)
  have box: "fst (SetupEnvironment removeWorld)"
    by (simp add: removeWorld_def)
  show ?thesis
    using opts remove called box box_cleaned_once_after_stop [OF opts remove called box]
    by simp
qed

text \<open>
  C6: \<^verbatim>\<open>SoftExit.Exit\<close> in debug mode logs at panic level and panics; otherwise it logs
  its arguments at error level and returns the error \<^verbatim>\<open>Exiting.\<close>, the same for all
  arguments.
\<close>

theorem Exit_panics_or_returns_error:
  "(Debug options \<longrightarrow>
      fst (Exit options v) = [EvLogPanicln v] \<and> snd (Exit options v) = Panicked v) \<and>
   (\<not> Debug options \<longrightarrow>
      fst (Exit options v) = [EvLogErrorln v] \<and>
      snd (Exit options v) = Returned (Some ''Exiting.''))"
  by (simp add: Exit_def)

text \<open>Witness of C6: one call in debug mode and one outside.\<close>

theorem Exit_panics_or_returns_error_witness:
  "Debug (plainOptions\<lparr>Debug := True\<rparr>) \<and>
   snd (Exit (plainOptions\<lparr>Debug := True\<rparr>) [''no code'']) = Panicked [''no code''] \<and>
   \<not> Debug plainOptions \<and>
   fst (Exit plainOptions [''no code'']) = [EvLogErrorln [''no code'']] \<and>
   snd (Exit plainOptions [''no code'']) = Returned (Some ''Exiting.'')"
  using Exit_panics_or_returns_error [of "plainOptions\<lparr>Debug := True\<rparr>" "[''no code'']"]
    Exit_panics_or_returns_error [of plainOptions "[''no code'']"]
  by (simp add: plainOptions_def)

text \<open>
  C9: in every run in which a call of \<^verbatim>\<open>RunStep\<close> for an after-step fails, the failing
  call is the last one for an after-step and no earlier one failed, the after-steps run
  are an initial part of the pipeline's after-steps, the final pipeline result is the one
  the build finished with, and the function returns what that result says: no error if
  \<^verbatim>\<open>Success\<close>, the error naming the failed step otherwise.
\<close>

theorem failed_after_step_ends_loop_and_keeps_result:
  assumes "NewGlobalOptions w = Inr options"
    and "list_ex (stepFails w NewCtx) (afterRuns (events (executePipeline w)))"
  shows "stepFails w NewCtx (last (afterRuns (events (executePipeline w)))) \<and>
    (\<forall>sn \<in> set (butlast (afterRuns (events (executePipeline w)))). \<not> stepFails w NewCtx sn) \<and>
    map fst (afterRuns (events (executePipeline w))) =
      take (length (afterRuns (events (executePipeline w)))) (AfterSteps w) \<and>
    EvFinishBuild (Success (pr (runToStore w options))) \<in> set (events (executePipeline w)) \<and>
    result (executePipeline w) = Some (pr (runToStore w options)) \<and>
    outcome (executePipeline w) =
      Returned (if Success (pr (runToStore w options)) then None
                else Some (''Step failed: '' @ FailedStepName (pr (runToStore w options))))"
proof -
  let ?n = "stepCounter (runToStore w options)"
  have reach: "reachesSteps w options \<and> reachesAfterSteps w (pr (runToStore w options))"
    using assms(2) executePipeline_afterRuns [OF assms(1)]
    by (cases "reachesSteps w options \<and> reachesAfterSteps w (pr (runToStore w options))") auto
  have runs: "afterRuns (events (executePipeline w)) = ranSteps w NewCtx (AfterSteps w) ?n"
    using executePipeline_afterRuns [OF assms(1)] reach by simp
  have failed: "list_ex (stepFails w NewCtx) (ranSteps w NewCtx (AfterSteps w) ?n)"
    using assms(2) runs by simp
  have whole: "result (executePipeline w) = Some (pr (runToStore w options)) \<and>
    outcome (executePipeline w) = fst (afterPhase w (runToStore w options)) \<and>
    EvFinishBuild (Success (pr (runToStore w options))) \<in> set (events (executePipeline w))"
    using reach pipelineBody_finishes_build [of w options]
    by (simp add: executePipeline_reaches [OF assms(1)] pipelineBody_pr)
      (simp add: pipelineBody_def)
  show ?thesis
    unfolding runs
    using whole reach afterPhase_outcome [of w "runToStore w options"]
      ranSteps_last [OF failed] ranSteps_butlast [of w NewCtx "AfterSteps w" ?n]
      ranSteps_prefix [of w NewCtx "AfterSteps w" ?n]
    by simp
qed

text \<open>Witness of C9: the user step and the first of two after-steps fail.\<close>

theorem failed_after_step_ends_loop_and_keeps_result_witness:
  "NewGlobalOptions afterStepsWorld = Inr plainOptions \<and>
   list_ex (stepFails afterStepsWorld NewCtx)
     (afterRuns (events (executePipeline afterStepsWorld))) \<and>
   afterRuns (events (executePipeline afterStepsWorld)) = [(stepZ, 4)] \<and>
   pr (runToStore afterStepsWorld plainOptions) =
     \<lparr>Success = False, FailedStepName = ''A'', FailedStepMessage = ''tests failed''\<rparr> \<and>
   result (executePipeline afterStepsWorld) = Some (pr (runToStore afterStepsWorld plainOptions)) \<and>
   outcome (executePipeline afterStepsWorld) =
     Returned (if Success (pr (runToStore afterStepsWorld plainOptions)) then None
               else Some (''Step failed: '' @
                          FailedStepName (pr (runToStore afterStepsWorld plainOptions))))"
proof -
  have opts: "NewGlobalOptions afterStepsWorld = Inr plainOptions"
    by (simp add: afterStepsWorld_def plainWorld_def)
  have runs: "afterRuns (events (executePipeline afterStepsWorld)) = [(stepZ, 4)]"
    by (simp add: run_defs world_defs afterStepsWorld_def afterRuns_def map_filter_def)
  have fails: "list_ex (stepFails afterStepsWorld NewCtx)
      (afterRuns (events (executePipeline afterStepsWorld)))"
    unfolding runs by (simp add: stepFails_def afterStepsWorld_def allFail_def)
  have before: "pr (runToStore afterStepsWorld plainOptions) =
      \<lparr>Success = False, FailedStepName = ''A'', FailedStepMessage = ''tests failed''\<rparr>"
    by (simp add: run_defs world_defs afterStepsWorld_def stepA_def failedStep_def)
  show ?thesis
    using opts runs fails before
      failed_after_step_ends_loop_and_keeps_result [OF opts fails]
    by simp
qed

section \<open>The claims about the metrics handler\<close>

text \<open>
  C7, as amended: for every \<^verbatim>\<open>BuildStepFinished\<close> event whose options carry a build or a
  deploy identifier, the handler does not panic and hands one payload to keen; its
  duration is zero if no start is recorded for the step's \<^verbatim>\<open>SafeID\<close>, and otherwise the
  seconds elapsed since the recorded start, which is then removed.
\<close>

theorem BuildStepFinished_sends_duration:
  "BuildID (argOptions args) \<noteq> '''' \<or> DeployID (argOptions args) \<noteq> '''' \<Longrightarrow>
   snd (BuildStepFinished tm h args now) = None \<and>
   (lookupStart h (csSafeID (argStep args)) = None \<longrightarrow>
      (\<exists>c p. added (keen (fst (BuildStepFinished tm h args now))) = added (keen h) @ [(c, p)] \<and>
             pDuration p = Some 0)) \<and>
   (\<forall>begin. lookupStart h (csSafeID (argStep args)) = Some begin \<longrightarrow>
      (\<exists>c p. added (keen (fst (BuildStepFinished tm h args now))) = added (keen h) @ [(c, p)] \<and>
             pDuration p = Some (SubSeconds tm now begin)) \<and>
      lookupStart (fst (BuildStepFinished tm h args now)) (csSafeID (argStep args)) = None)"
  by (auto simp add: BuildStepFinished_def sendPayload_def getCollection_def
      getPipelineName_def AddEvent_def lookupStart_def deleteStart_def Let_def
      split: option.splits prod.splits)

text \<open>Witness of C7: a build event, without and with a recorded start.\<close>

theorem BuildStepFinished_sends_duration_witness:
  "BuildID (argOptions finishedArgs) = ''build-1'' \<and>
   lookupStart newHandler (csSafeID (argStep finishedArgs)) = None \<and>
   snd (BuildStepFinished clock newHandler finishedArgs 7000000000) = None \<and>
   (\<exists>c p. added (keen (fst (BuildStepFinished clock newHandler finishedArgs 7000000000))) =
            added (keen newHandler) @ [(c, p)] \<and> pDuration p = Some 0) \<and>
   lookupStart startedHandler (csSafeID (argStep finishedArgs)) = Some 2000000000 \<and>
   (\<exists>c p. added (keen (fst (BuildStepFinished clock startedHandler finishedArgs 7000000000))) =
            added (keen startedHandler) @ [(c, p)] \<and> pDuration p = Some 5) \<and>
   lookupStart (fst (BuildStepFinished clock startedHandler finishedArgs 7000000000))
     (csSafeID (argStep finishedArgs)) = None"
proof -
  have build: "BuildID (argOptions finishedArgs) = ''build-1''"
    by (simp add: finishedArgs_def buildOptions_def)
  have ids: "BuildID (argOptions finishedArgs) \<noteq> '''' \<or> DeployID (argOptions finishedArgs) \<noteq> ''''"
    by (simp add: build)
  have none: "lookupStart newHandler (csSafeID (argStep finishedArgs)) = None"
    by (simp add: lookupStart_def newHandler_def)
  have some: "lookupStart startedHandler (csSafeID (argStep finishedArgs)) = Some 2000000000"
    by (simp add: lookupStart_def startedHandler_def newHandler_def finishedArgs_def coreStep_def)
  have secs: "SubSeconds clock 7000000000 2000000000 = 5"
    by (simp add: clock_def secondsBetween_def)
  show ?thesis
    using build none some secs
      BuildStepFinished_sends_duration [OF ids, of clock newHandler 7000000000]
      BuildStepFinished_sends_duration [OF ids, of clock startedHandler 7000000000]
    by simp
qed

text \<open>
  Counterexample to C7 as stated: the options carry neither identifier, no start is
  recorded, and no payload is handed to keen: the handler panics.
\<close>

theorem BuildStepFinished_without_id_sends_nothing:
  "lookupStart newHandler (csSafeID (argStep finishedNoIDArgs)) = None \<and>
   added (keen (fst (BuildStepFinished clock newHandler finishedNoIDArgs 7000000000))) = [] \<and>
   snd (BuildStepFinished clock newHandler finishedNoIDArgs 7000000000) = Some panicMessage"
  by (simp add: BuildStepFinished_def sendPayload_def getCollection_def lookupStart_def
      newHandler_def finishedNoIDArgs_def finishedArgs_def noIDOptions_def buildOptions_def)

text \<open>
  C8, as amended: when the options carry neither a build nor a deploy identifier,
  \<^verbatim>\<open>sendPayload\<close> panics with the message of \<^verbatim>\<open>getCollection\<close>, whatever the debug flag
  is; nothing is handed to keen and the handler is unchanged.
\<close>

theorem sendPayload_without_id_panics:
  "BuildID (spOptions args) = '''' \<and> DeployID (spOptions args) = '''' \<longrightarrow>
     sendPayload tm h args = (h, Some panicMessage)"
  by (simp add: sendPayload_def getCollection_def)

text \<open>Witness of C8: options without identifiers, outside debug mode.\<close>

theorem sendPayload_without_id_panics_witness:
  "BuildID (spOptions sendNoIDArgs) = '''' \<and> DeployID (spOptions sendNoIDArgs) = '''' \<and>
   sendPayload clock newHandler sendNoIDArgs = (newHandler, Some panicMessage)"
  using sendPayload_without_id_panics [of sendNoIDArgs clock newHandler]
  by (simp add: sendNoIDArgs_def noIDOptions_def buildOptions_def)

text \<open>
  Counterexample to C8 as stated: outside debug mode, with neither identifier, the call
  is not skipped: it panics.
\<close>

theorem sendPayload_panics_outside_debug_mode:
  "\<not> Debug (spOptions sendNoIDArgs) \<and>
   BuildID (spOptions sendNoIDArgs) = '''' \<and> DeployID (spOptions sendNoIDArgs) = '''' \<and>
   snd (sendPayload clock newHandler sendNoIDArgs) = Some panicMessage"
  by (simp add: sendPayload_def getCollection_def sendNoIDArgs_def noIDOptions_def
      buildOptions_def)

text \<open>
  C10: \<^verbatim>\<open>NewMetricsHandler\<close> returns an error, and so no handler, exactly when the
  write key or the project identifier is empty; otherwise it returns a handler whose
  \<^verbatim>\<open>startStep\<close> map is not nil and is empty.
\<close>

theorem NewMetricsHandler_error_iff_missing_key:
  "((\<exists>e. NewMetricsHandler getVersions opts = Inl e) \<longleftrightarrow>
      (KeenProjectWriteKey opts = '''' \<or> KeenProjectID opts = '''')) \<and>
   (KeenProjectWriteKey opts \<noteq> '''' \<and> KeenProjectID opts \<noteq> '''' \<longrightarrow>
      (\<exists>h. NewMetricsHandler getVersions opts = Inr h \<and> startStep h = Some Map.empty))"
  by (auto simp add: NewMetricsHandler_def)

text \<open>Witness of C10: options with a write key and a project identifier.\<close>

theorem NewMetricsHandler_error_iff_missing_key_witness:
  "KeenProjectWriteKey buildOptions \<noteq> '''' \<and> KeenProjectID buildOptions \<noteq> '''' \<and>
   (\<exists>h. NewMetricsHandler (None :: unit option) buildOptions = Inr h \<and>
        startStep h = Some Map.empty)"
  using NewMetricsHandler_error_iff_missing_key [of "None :: unit option" buildOptions]
  by (simp add: buildOptions_def)

end
